theory Spec2Isabelle
  imports Complex_Main
begin

section \<open>Values of the rendering library\<close>

text \<open>
  The module \<^verbatim>\<open>stl.py\<close> is glue between an STL parser and a scene renderer.
  Coordinates are Python floats; the development is polymorphic in the number type
  \<open>'a\<close> and uses only the operations the source applies to it (\<open>+\<close>, \<open>-\<close>,
  \<open>*\<close>, the constants \<open>0\<close> and \<open>1\<close>), so no law of exact arithmetic is assumed
  unless a theorem says so in its type.
\<close>

datatype 'a vector = vec 'a 'a 'a

instantiation vector :: (plus) plus
begin

fun plus_vector :: "'a vector \<Rightarrow> 'a vector \<Rightarrow> 'a vector" where
  "plus_vector (vec a b c) (vec d e f) = vec (a + d) (b + e) (c + f)"

instance ..

end

instantiation vector :: (minus) minus
begin

fun minus_vector :: "'a vector \<Rightarrow> 'a vector \<Rightarrow> 'a vector" where
  "minus_vector (vec a b c) (vec d e f) = vec (a - d) (b - e) (c - f)"

instance ..

end

datatype color = white

datatype 'a vertex = vertex (v_pos: "'a vector") (v_normal: "'a vector") (v_color: color)

type_synonym canvas = nat

type_synonym handle = nat

datatype error = Error string

text \<open>Keyword arguments of a constructor call, in the order they are written.\<close>

datatype 'a arg = VecArg "'a vector" | CanvasArg canvas

type_synonym 'a kwargs = "(string \<times> 'a arg) list"

text \<open>
  A grouped object of the renderer. \<open>obj_length\<close>, \<open>obj_height\<close> and
  \<open>obj_width\<close> are the attributes \<^verbatim>\<open>length\<close>, \<^verbatim>\<open>height\<close>,
  \<^verbatim>\<open>width\<close>; \<open>user_attrs\<close> holds the keyword arguments that are not
  attributes of a compound.
\<close>

record 'a compound_attrs =
  children :: "handle list"
  canvas_of :: canvas
  origin_attr :: "'a vector"
  pos :: "'a vector"
  axis :: "'a vector"
  up :: "'a vector"
  obj_length :: 'a
  obj_height :: 'a
  obj_width :: 'a
  visible :: bool
  user_attrs :: "'a kwargs"

datatype 'a obj = Triangle canvas "'a vertex list" | Compound "'a compound_attrs"

text \<open>
  The objects the renderer owns, in creation order. A handle is an index into this
  list: Python's object references, made explicit because \<^verbatim>\<open>set_stl_origin\<close>
  mutates an object that the returned group keeps referring to.
\<close>

type_synonym 'a heap = "'a obj list"

fun is_Triangle :: "'a obj \<Rightarrow> bool" where
  "is_Triangle (Triangle c vs) = True"
| "is_Triangle (Compound a) = False"

fun is_Compound :: "'a obj \<Rightarrow> bool" where
  "is_Compound (Triangle c vs) = False"
| "is_Compound (Compound a) = True"

text \<open>
  The renderer is the library imported on line 6. What it computes from the geometry is
  a parameter: the position and the extents of a group (or the error it raises
  instead), and the canvas that is current when the call passes none.
\<close>

record 'a extents =
  e_pos :: "'a vector"
  e_length :: 'a
  e_height :: 'a
  e_width :: 'a

record 'a renderer =
  bounding_box :: "'a obj list \<Rightarrow> 'a kwargs \<Rightarrow> error + 'a extents"
  default_canvas :: canvas

definition vec_arg :: "'a kwargs \<Rightarrow> string \<Rightarrow> 'a vector \<Rightarrow> 'a vector" where
  "vec_arg args k d = (case map_of args k of Some (VecArg v) \<Rightarrow> v | _ \<Rightarrow> d)"

definition canvas_arg :: "'a kwargs \<Rightarrow> string \<Rightarrow> canvas \<Rightarrow> canvas" where
  "canvas_arg args k d = (case map_of args k of Some (CanvasArg c) \<Rightarrow> c | _ \<Rightarrow> d)"

definition compound_keys :: "string list" where
  "compound_keys = [''origin'', ''canvas'', ''axis'', ''up'']"

text \<open>\<^verbatim>\<open>triangle(canvas=scene, vs=vertices)\<close>: a new object of the scene.\<close>

definition triangle :: "canvas \<Rightarrow> 'a vertex list \<Rightarrow> 'a heap \<Rightarrow> handle \<times> 'a heap" where
  "triangle scene vs h = (length h, h @ [Triangle scene vs])"

text \<open>
  \<^verbatim>\<open>compound(objList, **args)\<close>: the renderer computes position and extents of the
  group or raises; on success one new object is created, its attributes taken from
  the keyword arguments of that name, and the objects grouped are left as they are.
  A compound created without \<^verbatim>\<open>axis\<close> has the library's default axis (1, 0, 0),
  one created without \<^verbatim>\<open>up\<close> the default (0, 1, 0). A keyword that names no
  attribute of a compound is kept as a user attribute.
\<close>

definition compound ::
  "'a::{zero,one} renderer \<Rightarrow> handle list \<Rightarrow> 'a kwargs \<Rightarrow> 'a heap \<Rightarrow> (error + handle) \<times> 'a heap" where
  "compound R objList args h =
    (if \<not> list_all (\<lambda>i. i < length h) objList then (Inl (Error ''invalid handle''), h)
     else case bounding_box R (map (\<lambda>i. h ! i) objList) args of
       Inl e \<Rightarrow> (Inl e, h)
     | Inr ext \<Rightarrow>
         (Inr (length h),
          h @ [Compound \<lparr>
            children = objList,
            canvas_of = canvas_arg args ''canvas'' (default_canvas R),
            origin_attr = vec_arg args ''origin'' (e_pos ext),
            pos = e_pos ext,
            axis = vec_arg args ''axis'' (vec 1 0 0),
            up = vec_arg args ''up'' (vec 0 1 0),
            obj_length = e_length ext,
            obj_height = e_height ext,
            obj_width = e_width ext,
            visible = True,
            user_attrs = filter (\<lambda>(k, v). k \<notin> set compound_keys) args \<rparr>]))"

text \<open>Reading the attributes of a grouped object through its handle.\<close>

definition get_compound :: "'a heap \<Rightarrow> handle \<Rightarrow> error + 'a compound_attrs" where
  "get_compound h i =
    (if i < length h
     then (case h ! i of
             Compound c \<Rightarrow> Inr c
           | Triangle s vs \<Rightarrow> Inl (Error ''not a compound''))
     else Inl (Error ''invalid handle''))"

section \<open>The parsed mesh\<close>

text \<open>
  The parser's mesh is a structured array with one row per face; \<^verbatim>\<open>vectors\<close> and
  \<^verbatim>\<open>normals\<close> are its columns, so they have one entry per face by construction.
\<close>

type_synonym 'a triple = "'a \<times> 'a \<times> 'a"

datatype 'a face = Face (face_normals: "'a triple") (face_vectors: "'a triple \<times> 'a triple \<times> 'a triple")

type_synonym 'a mesh = "'a face list"

definition vectors :: "'a mesh \<Rightarrow> ('a triple \<times> 'a triple \<times> 'a triple) list" where
  "vectors the_mesh = map face_vectors the_mesh"

definition normals :: "'a mesh \<Rightarrow> 'a triple list" where
  "normals the_mesh = map face_normals the_mesh"

section \<open>Helpers of \<^verbatim>\<open>common_functions\<close>\<close>

text \<open>
  Modelled from the spec: the module \<^verbatim>\<open>common_functions\<close> (the pose accessors
  \<^verbatim>\<open>get_pose_pos\<close>, \<^verbatim>\<open>get_pose_x_vec\<close>, \<^verbatim>\<open>get_pose_y_vec\<close>,
  \<^verbatim>\<open>get_pose_z_vec\<close> and the constant \<^verbatim>\<open>x_axis_vector\<close>) is not among the
  sources. The spec describes a pose as a rigid transform, a position and three axis
  vectors, and \<^verbatim>\<open>x_axis_vector\<close> as the canonical x-axis of the coordinate system.
\<close>

record 'a pose =
  pose_pos :: "'a vector"
  pose_x :: "'a vector"
  pose_y :: "'a vector"
  pose_z :: "'a vector"

definition get_pose_pos :: "'a pose \<Rightarrow> 'a vector" where
  "get_pose_pos se3_obj = pose_pos se3_obj"

definition get_pose_x_vec :: "'a pose \<Rightarrow> 'a vector" where
  "get_pose_x_vec se3_obj = pose_x se3_obj"

definition get_pose_y_vec :: "'a pose \<Rightarrow> 'a vector" where
  "get_pose_y_vec se3_obj = pose_y se3_obj"

definition get_pose_z_vec :: "'a pose \<Rightarrow> 'a vector" where
  "get_pose_z_vec se3_obj = pose_z se3_obj"

definition x_axis_vector :: "'a::{zero,one} vector" where
  "x_axis_vector = vec 1 0 0"

section \<open>\<^verbatim>\<open>import_object_from_numpy_stl\<close>\<close>

text \<open>
  \<^verbatim>\<open>meshdata\<close> is the list \<^verbatim>\<open>[filename, scale, origin]\<close>, \<^verbatim>\<open>scale\<close> a
  sequence of three numbers.
\<close>

type_synonym 'a meshdata = "string \<times> 'a triple \<times> 'a pose"

text \<open>One pass of the loop body, lines 38 to 71, for each face index in turn.\<close>

fun faces_loop ::
  "'a mesh \<Rightarrow> canvas \<Rightarrow> nat list \<Rightarrow> handle list \<times> 'a heap \<Rightarrow> handle list \<times> 'a heap" where
  "faces_loop the_mesh scene [] (triangles, h) = (triangles, h)"
| "faces_loop the_mesh scene (face # faces) (triangles, h) =
    (case vectors the_mesh ! face of (point0, point1, point2) \<Rightarrow>
     case normals the_mesh ! face of (normal0, normal1, normal2) \<Rightarrow>
     case point0 of (p00, p01, p02) \<Rightarrow>
     case point1 of (p10, p11, p12) \<Rightarrow>
     case point2 of (p20, p21, p22) \<Rightarrow>
       let normal = vec normal0 normal1 normal2;
           vertex0 = vertex (vec p00 p01 p02) normal white;
           vertex1 = vertex (vec p10 p11 p12) normal white;
           vertex2 = vertex (vec p20 p21 p22) normal white;
           vertices = [vertex0, vertex1, vertex2];
           (t, h') = triangle scene vertices h
       in faces_loop the_mesh scene faces (triangles @ [t], h'))"

text \<open>
  \<^verbatim>\<open>mesh.Mesh.from_file\<close> reads the file system: it is the parameter
  \<open>from_file\<close>, which returns the mesh or the parser's error. A Python exception
  leaves the objects created before it in place, so the heap is returned in both cases.
\<close>

definition import_object_from_numpy_stl ::
  "'a::{times,zero,one} renderer \<Rightarrow> (string \<Rightarrow> error + 'a mesh) \<Rightarrow> 'a meshdata \<Rightarrow> canvas \<Rightarrow> 'a heap
     \<Rightarrow> (error + handle) \<times> 'a heap" where
  "import_object_from_numpy_stl R from_file meshdata scene h =
    (case meshdata of (filename, scale, origin) \<Rightarrow>
     case scale of (scale0, scale1, scale2) \<Rightarrow>
     let origin_pos = get_pose_pos origin;
         origin_x = get_pose_x_vec origin;
         origin_y = get_pose_y_vec origin;
         origin_z = get_pose_z_vec origin
     in case from_file filename of
          Inl e \<Rightarrow> (Inl e, h)
        | Inr the_mesh \<Rightarrow>
            let num_faces = length (vectors the_mesh);
                (triangles, h1) = faces_loop the_mesh scene [0..<num_faces] ([], h)
            in case compound R triangles
                      [(''origin'', VecArg origin_pos), (''canvas'', CanvasArg scene),
                       (''axis'', VecArg origin_x), (''up'', VecArg origin_y)] h1 of
                 (Inl e, h2) \<Rightarrow> (Inl e, h2)
               | (Inr visual_mesh, h2) \<Rightarrow>
                   (case get_compound h2 visual_mesh of
                      Inl e \<Rightarrow> (Inl e, h2)
                    | Inr c \<Rightarrow>
                        let c1 = c\<lparr>obj_length := obj_length c * scale0\<rparr>;
                            c2 = c1\<lparr>obj_height := obj_height c1 * scale1\<rparr>;
                            c3 = c2\<lparr>obj_width := obj_width c2 * scale2\<rparr>
                        in (Inr visual_mesh, h2[visual_mesh := Compound c3])))"

section \<open>\<^verbatim>\<open>set_stl_origin\<close>\<close>

text \<open>
  \<^verbatim>\<open>stl_obj\<close> is documented as a compound; a handle that is none is the
  renderer's error. The last line passes \<^verbatim>\<open>x_axis_vector\<close> under the keyword
  \<^verbatim>\<open>vector\<close>.
\<close>

definition set_stl_origin ::
  "'a::{plus,minus,zero,one} renderer \<Rightarrow> handle \<Rightarrow> 'a vector \<Rightarrow> 'a vector \<Rightarrow> canvas \<Rightarrow> 'a heap
     \<Rightarrow> (error + handle) \<times> 'a heap" where
  "set_stl_origin R stl_obj current_obj_origin required_obj_origin scene h =
    (let movement = required_obj_origin - current_obj_origin
     in case get_compound h stl_obj of
          Inl e \<Rightarrow> (Inl e, h)
        | Inr c \<Rightarrow>
            let c1 = c\<lparr>pos := pos c + movement\<rparr>;
                c2 = c1\<lparr>visible := False\<rparr>;
                h1 = h[stl_obj := Compound c2]
            in compound R [stl_obj]
                 [(''origin'', VecArg (vec 0 0 0)), (''vector'', VecArg x_axis_vector),
                  (''canvas'', CanvasArg scene)] h1)"

section \<open>Scenarios and auxiliary definitions\<close>




text \<open>
  Names for the proofs: the object the loop body creates for one face, and the keyword
  arguments of the two \<^verbatim>\<open>compound\<close> calls.
\<close>

definition face_triangle :: "canvas \<Rightarrow> 'a face \<Rightarrow> 'a obj" where
  "face_triangle scene f =
    (case face_vectors f of (point0, point1, point2) \<Rightarrow>
     case face_normals f of (normal0, normal1, normal2) \<Rightarrow>
     case point0 of (p00, p01, p02) \<Rightarrow>
     case point1 of (p10, p11, p12) \<Rightarrow>
     case point2 of (p20, p21, p22) \<Rightarrow>
       Triangle scene
         [vertex (vec p00 p01 p02) (vec normal0 normal1 normal2) white,
          vertex (vec p10 p11 p12) (vec normal0 normal1 normal2) white,
          vertex (vec p20 p21 p22) (vec normal0 normal1 normal2) white])"

definition import_args :: "'a pose \<Rightarrow> canvas \<Rightarrow> 'a kwargs" where
  "import_args p scene =
     [(''origin'', VecArg (get_pose_pos p)), (''canvas'', CanvasArg scene),
      (''axis'', VecArg (get_pose_x_vec p)), (''up'', VecArg (get_pose_y_vec p))]"

definition relocate_args :: "canvas \<Rightarrow> 'a::{zero,one} kwargs" where
  "relocate_args scene =
     [(''origin'', VecArg (vec 0 0 0)), (''vector'', VecArg x_axis_vector),
      (''canvas'', CanvasArg scene)]"

subsection \<open>Concrete inputs\<close>

text \<open>
  A renderer that reports a box of 3 by 2 by 1 placed at the origin argument for every
  group; one that refuses an empty group; one whose grouping call fails. The mesh is
  the unit square of two faces.
\<close>

definition example_renderer :: "real renderer" where
  "example_renderer =
     \<lparr>bounding_box = (\<lambda>objs args.
         Inr \<lparr>e_pos = vec_arg args ''origin'' (vec 0 0 0),
              e_length = 3, e_height = 2, e_width = 1\<rparr>),
      default_canvas = 0\<rparr>"

definition nonempty_renderer :: "real renderer" where
  "nonempty_renderer =
     example_renderer\<lparr>bounding_box := (\<lambda>objs args.
        case objs of
          [] \<Rightarrow> Inl (Error ''compound object must have at least one object'')
        | x # xs \<Rightarrow> bounding_box example_renderer objs args)\<rparr>"


definition unit_square :: "real mesh" where
  "unit_square =
     [Face (0, 0, 1) ((0, 0, 0), (1, 0, 0), (1, 1, 0)),
      Face (0, 0, 1) ((0, 0, 0), (1, 1, 0), (0, 1, 0))]"

definition example_files :: "string \<Rightarrow> error + real mesh" where
  "example_files filename =
     (if filename = ''square.stl'' then Inr unit_square
      else if filename = ''empty.stl'' then Inr []
      else Inl (Error ''No such file''))"

definition identity_pose :: "real pose" where
  "identity_pose =
     \<lparr>pose_pos = vec 0 0 0, pose_x = vec 1 0 0, pose_y = vec 0 1 0, pose_z = vec 0 0 1\<rparr>"

definition example_object :: "real compound_attrs" where
  "example_object =
     \<lparr>children = [], canvas_of = 0, origin_attr = vec 0 0 0, pos = vec 5 5 5,
      axis = vec 1 0 0, up = vec 0 1 0, obj_length = 3, obj_height = 2, obj_width = 1,
      visible = True, user_attrs = []\<rparr>"

definition example_heap :: "real heap" where
  "example_heap = [Compound example_object]"

section \<open>The loop and the grouping call\<close>

lemma faces_loop_step:
  assumes "face < length the_mesh"
  shows "faces_loop the_mesh scene (face # faces) (triangles, h) =
         faces_loop the_mesh scene faces
           (triangles @ [length h], h @ [face_triangle scene (the_mesh ! face)])"
  using assms
  by (simp add: vectors_def normals_def face_triangle_def triangle_def Let_def
      split: prod.splits)

lemma faces_loop_eq:
  "\<forall>i\<in>set faces. i < length the_mesh \<Longrightarrow>
   faces_loop the_mesh scene faces (triangles, h) =
     (triangles @ [length h..<length h + length faces],
      h @ map (\<lambda>i. face_triangle scene (the_mesh ! i)) faces)"
proof (induction faces arbitrary: triangles h)
  case Nil
  then show ?case by simp
next
  case (Cons face faces)
  let ?t = "face_triangle scene (the_mesh ! face)"
  have "face < length the_mesh" using Cons.prems by simp
  then have "faces_loop the_mesh scene (face # faces) (triangles, h) =
         faces_loop the_mesh scene faces (triangles @ [length h], h @ [?t])"
    by (rule faces_loop_step)
  also have "\<dots> =
      ((triangles @ [length h]) @ [length (h @ [?t])..<length (h @ [?t]) + length faces],
       (h @ [?t]) @ map (\<lambda>i. face_triangle scene (the_mesh ! i)) faces)"
    using Cons.prems by (intro Cons.IH) simp
  also have "\<dots> = (triangles @ [length h..<length h + length (face # faces)],
      h @ map (\<lambda>i. face_triangle scene (the_mesh ! i)) (face # faces))"
    by (simp add: upt_rec)
  finally show ?case .
qed

lemma faces_loop_all:
  "faces_loop the_mesh scene [0..<length the_mesh] ([], h) =
     ([length h..<length h + length the_mesh], h @ map (face_triangle scene) the_mesh)"
proof -
  have "map (\<lambda>i. face_triangle scene (the_mesh ! i)) [0..<length the_mesh] =
        map (face_triangle scene) the_mesh"
    by (rule nth_equalityI) simp_all
  then show ?thesis by (simp add: faces_loop_eq)
qed

lemma face_triangle_Face:
  "face_triangle scene (Face (n0, n1, n2) ((a0, a1, a2), (b0, b1, b2), (c0, c1, c2))) =
     Triangle scene
       [vertex (vec a0 a1 a2) (vec n0 n1 n2) white,
        vertex (vec b0 b1 b2) (vec n0 n1 n2) white,
        vertex (vec c0 c1 c2) (vec n0 n1 n2) white]"
  by (simp add: face_triangle_def)

lemma face_triangle_shape:
  "\<exists>n0 n1 n2 a0 a1 a2 b0 b1 b2 c0 c1 c2.
     f = Face (n0, n1, n2) ((a0, a1, a2), (b0, b1, b2), (c0, c1, c2)) \<and>
     face_triangle scene f =
       Triangle scene
         [vertex (vec a0 a1 a2) (vec n0 n1 n2) white,
          vertex (vec b0 b1 b2) (vec n0 n1 n2) white,
          vertex (vec c0 c1 c2) (vec n0 n1 n2) white]"
proof (cases f)
  case (Face n vs)
  obtain n0 n1 n2 where n: "n = (n0, n1, n2)" by (cases n) auto
  obtain a b c where vs: "vs = (a, b, c)" by (cases vs) auto
  obtain a0 a1 a2 where a: "a = (a0, a1, a2)" by (cases a) auto
  obtain b0 b1 b2 where b: "b = (b0, b1, b2)" by (cases b) auto
  obtain c0 c1 c2 where c: "c = (c0, c1, c2)" by (cases c) auto
  show ?thesis
    unfolding Face n vs a b c by (simp add: face_triangle_def)
qed

lemma is_Triangle_face_triangle: "is_Triangle (face_triangle scene f)"
  using face_triangle_shape [of f scene] by auto

lemma not_Compound_face_triangle: "\<not> is_Compound (face_triangle scene f)"
proof -
  from face_triangle_shape [of f scene] obtain vs where
    "face_triangle scene f = Triangle scene vs" by blast
  then show ?thesis by simp
qed

lemma filter_face_triangles:
  "filter is_Triangle (map (face_triangle scene) the_mesh) = map (face_triangle scene) the_mesh"
  by (simp add: is_Triangle_face_triangle)

lemma deref_new:
  "map (\<lambda>i. (h @ ts) ! i) [length h..<length h + length ts] = ts"
  by (rule nth_equalityI) (simp_all add: nth_append)

lemma new_handles_valid:
  "list_all (\<lambda>i. i < length h + length ts) [length h..<length h + length ts]"
  by (simp add: list_all_iff)

lemma get_compound_valid:
  "get_compound h i = Inr c \<longleftrightarrow> i < length h \<and> h ! i = Compound c"
  by (auto simp: get_compound_def split: obj.splits)

lemma get_compound_new:
  "get_compound (h @ ts @ [Compound c]) (length h + length ts) = Inr c"
  by (simp add: get_compound_def nth_append)

lemma get_compound_updated:
  "i < length h \<Longrightarrow> get_compound (h[i := Compound c] @ rest) i = Inr c"
  by (simp add: get_compound_def nth_append)


lemma update_new:
  "(h @ ts @ [x])[length h + length ts := y] = h @ ts @ [y]"
  by (simp add: list_update_append)

lemma import_args_unfold:
  "[(''origin'', VecArg (get_pose_pos p)), (''canvas'', CanvasArg scene),
    (''axis'', VecArg (get_pose_x_vec p)), (''up'', VecArg (get_pose_y_vec p))] =
   import_args p scene"
  by (simp add: import_args_def)

lemma import_args_lookup:
  "vec_arg (import_args p scene) ''origin'' d = get_pose_pos p"
  "vec_arg (import_args p scene) ''axis'' d = get_pose_x_vec p"
  "vec_arg (import_args p scene) ''up'' d = get_pose_y_vec p"
  "canvas_arg (import_args p scene) ''canvas'' d' = scene"
  "filter (\<lambda>(k, v). k \<notin> set compound_keys) (import_args p scene) = []"
  by (simp_all add: vec_arg_def canvas_arg_def import_args_def compound_keys_def)

lemma relocate_args_lookup:
  "vec_arg (relocate_args scene) ''origin'' d = vec 0 0 0"
  "vec_arg (relocate_args scene) ''axis'' d = d"
  "vec_arg (relocate_args scene) ''up'' d = d"
  "canvas_arg (relocate_args scene) ''canvas'' d' = scene"
  "filter (\<lambda>(k, v). k \<notin> set compound_keys) (relocate_args scene) =
     [(''vector'', VecArg x_axis_vector)]"
  by (simp_all add: vec_arg_def canvas_arg_def relocate_args_def compound_keys_def)

lemma compound_new:
  "compound R [length h..<length h + length ts] args (h @ ts) =
    (case bounding_box R ts args of
       Inl e \<Rightarrow> (Inl e, h @ ts)
     | Inr ext \<Rightarrow>
         (Inr (length h + length ts),
          (h @ ts) @ [Compound \<lparr>
            children = [length h..<length h + length ts],
            canvas_of = canvas_arg args ''canvas'' (default_canvas R),
            origin_attr = vec_arg args ''origin'' (e_pos ext),
            pos = e_pos ext,
            axis = vec_arg args ''axis'' (vec 1 0 0),
            up = vec_arg args ''up'' (vec 0 1 0),
            obj_length = e_length ext,
            obj_height = e_height ext,
            obj_width = e_width ext,
            visible = True,
            user_attrs = filter (\<lambda>(k, v). k \<notin> set compound_keys) args \<rparr>]))"
  by (simp add: compound_def new_handles_valid deref_new split: sum.splits)

section \<open>What the two functions compute\<close>

text \<open>
  Once the file has parsed, the import is determined by the renderer's answer for the
  group of the triangles of all faces.
\<close>

lemma import_parsed:
  assumes "from_file filename = Inr the_mesh"
  shows "import_object_from_numpy_stl R from_file (filename, (scale0, scale1, scale2), p) scene h =
    (case bounding_box R (map (face_triangle scene) the_mesh) (import_args p scene) of
       Inl e \<Rightarrow> (Inl e, h @ map (face_triangle scene) the_mesh)
     | Inr ext \<Rightarrow>
         (Inr (length h + length the_mesh),
          (h @ map (face_triangle scene) the_mesh) @ [Compound \<lparr>
            children = [length h..<length h + length the_mesh],
            canvas_of = scene,
            origin_attr = get_pose_pos p,
            pos = e_pos ext,
            axis = get_pose_x_vec p,
            up = get_pose_y_vec p,
            obj_length = e_length ext * scale0,
            obj_height = e_height ext * scale1,
            obj_width = e_width ext * scale2,
            visible = True,
            user_attrs = [] \<rparr>]))"
proof -
  let ?ts = "map (face_triangle scene) the_mesh"
  have c: "compound R [length h..<length h + length the_mesh] (import_args p scene) (h @ ?ts) =
    (case bounding_box R ?ts (import_args p scene) of
       Inl e \<Rightarrow> (Inl e, h @ ?ts)
     | Inr ext \<Rightarrow>
         (Inr (length h + length the_mesh),
          (h @ ?ts) @ [Compound \<lparr>
            children = [length h..<length h + length the_mesh],
            canvas_of = scene,
            origin_attr = get_pose_pos p,
            pos = e_pos ext,
            axis = get_pose_x_vec p,
            up = get_pose_y_vec p,
            obj_length = e_length ext,
            obj_height = e_height ext,
            obj_width = e_width ext,
            visible = True,
            user_attrs = [] \<rparr>]))"
    using compound_new [of R h ?ts "import_args p scene"]
    by (simp add: import_args_lookup split: sum.splits)
  show ?thesis
  proof (cases "bounding_box R ?ts (import_args p scene)")
    case (Inl e)
    with c assms show ?thesis
      by (simp add: import_object_from_numpy_stl_def faces_loop_all vectors_def
          import_args_def [symmetric])
  next
    case (Inr ext)
    have g: "get_compound (h @ ?ts @ [Compound c']) (length h + length the_mesh) = Inr c'" for c'
      using get_compound_new [of h ?ts c'] by simp
    have u: "(h @ ?ts @ [x])[length h + length the_mesh := y] = h @ ?ts @ [y]" for x y
      using update_new [of h ?ts x y] by simp
    from Inr c assms show ?thesis
      by (simp add: import_object_from_numpy_stl_def faces_loop_all vectors_def
          import_args_def [symmetric] Let_def g u)
  qed
qed

lemma import_heap:
  assumes "from_file filename = Inr the_mesh"
    and "import_object_from_numpy_stl R from_file (filename, scale, p) scene h = (r, h')"
  shows "h' = h @ map (face_triangle scene) the_mesh \<or>
         (\<exists>c. h' = h @ map (face_triangle scene) the_mesh @ [Compound c])"
proof -
  obtain s0 s1 s2 where s: "scale = (s0, s1, s2)" by (cases scale) auto
  show ?thesis
    using assms(2)
    unfolding s import_parsed [where from_file = from_file and filename = filename, OF assms(1)]
    by (auto split: sum.splits)
qed

lemma import_result:
  assumes "import_object_from_numpy_stl R from_file (filename, (sx, sy, sz), p) scene h = (Inr v, h')"
  shows "\<exists>the_mesh ext.
      from_file filename = Inr the_mesh \<and>
      bounding_box R (map (face_triangle scene) the_mesh) (import_args p scene) = Inr ext \<and>
      v = length h + length the_mesh \<and>
      h' = h @ map (face_triangle scene) the_mesh @ [Compound \<lparr>
            children = [length h..<length h + length the_mesh],
            canvas_of = scene,
            origin_attr = get_pose_pos p,
            pos = e_pos ext,
            axis = get_pose_x_vec p,
            up = get_pose_y_vec p,
            obj_length = e_length ext * sx,
            obj_height = e_height ext * sy,
            obj_width = e_width ext * sz,
            visible = True,
            user_attrs = [] \<rparr>]"
proof (cases "from_file filename")
  case (Inl e)
  with assms show ?thesis
    by (simp add: import_object_from_numpy_stl_def Let_def)
next
  case (Inr the_mesh)
  show ?thesis
    using assms
    unfolding import_parsed [where from_file = from_file and filename = filename, OF Inr]
    by (auto simp: Inr split: sum.splits)
qed

text \<open>
  On a compound, \<^verbatim>\<open>set_stl_origin\<close> updates the object in place and then asks the
  renderer for the group of that one object.
\<close>

lemma set_stl_origin_valid:
  assumes "get_compound h stl_obj = Inr c"
  shows "set_stl_origin R stl_obj cur req scene h =
    (case bounding_box R [Compound (c\<lparr>pos := pos c + (req - cur), visible := False\<rparr>)]
            (relocate_args scene) of
       Inl e \<Rightarrow>
         (Inl e, h[stl_obj := Compound (c\<lparr>pos := pos c + (req - cur), visible := False\<rparr>)])
     | Inr ext \<Rightarrow>
         (Inr (length h),
          h[stl_obj := Compound (c\<lparr>pos := pos c + (req - cur), visible := False\<rparr>)] @
          [Compound \<lparr>
            children = [stl_obj],
            canvas_of = scene,
            origin_attr = vec 0 0 0,
            pos = e_pos ext,
            axis = vec 1 0 0,
            up = vec 0 1 0,
            obj_length = e_length ext,
            obj_height = e_height ext,
            obj_width = e_width ext,
            visible = True,
            user_attrs = [(''vector'', VecArg x_axis_vector)] \<rparr>]))"
proof -
  from assms have v: "stl_obj < length h" by (simp add: get_compound_valid)
  show ?thesis
    using assms v
    by (simp add: set_stl_origin_def compound_def Let_def relocate_args_def [symmetric]
        relocate_args_lookup split: sum.splits)
qed

lemma set_stl_origin_heap:
  assumes "get_compound h stl_obj = Inr c"
    and "set_stl_origin R stl_obj cur req scene h = (r, h')"
  shows "\<exists>rest. h' = h[stl_obj := Compound (c\<lparr>pos := pos c + (req - cur), visible := False\<rparr>)] @ rest"
  using assms(2) unfolding set_stl_origin_valid [OF assms(1)]
  by (auto split: sum.splits)

lemma set_stl_origin_success:
  assumes "get_compound h stl_obj = Inr c"
    and "set_stl_origin R stl_obj cur req scene h = (Inr w, h')"
  shows "\<exists>g. w = length h \<and>
             h' = h[stl_obj := Compound (c\<lparr>pos := pos c + (req - cur), visible := False\<rparr>)] @
                  [Compound g] \<and>
             children g = [stl_obj] \<and> origin_attr g = vec 0 0 0 \<and>
             axis g = vec 1 0 0 \<and>
             user_attrs g = [(''vector'', VecArg x_axis_vector)]"
  using assms(2) unfolding set_stl_origin_valid [OF assms(1)]
  by (auto split: sum.splits)

subsection \<open>The concrete inputs, evaluated\<close>

lemma example_files_square: "example_files ''square.stl'' = Inr unit_square"
  by (simp add: example_files_def)

lemma example_files_empty: "example_files ''empty.stl'' = Inr []"
  by (simp add: example_files_def)


lemma example_heap_object: "get_compound example_heap 0 = Inr example_object"
  by (simp add: get_compound_def example_heap_def)

lemma example_import:
  "import_object_from_numpy_stl example_renderer example_files
     (''square.stl'', (2, 1, 1), identity_pose) 0 [] =
   (Inr 2,
    [Triangle 0 [vertex (vec 0 0 0) (vec 0 0 1) white, vertex (vec 1 0 0) (vec 0 0 1) white,
                 vertex (vec 1 1 0) (vec 0 0 1) white],
     Triangle 0 [vertex (vec 0 0 0) (vec 0 0 1) white, vertex (vec 1 1 0) (vec 0 0 1) white,
                 vertex (vec 0 1 0) (vec 0 0 1) white],
     Compound \<lparr>children = [0, 1], canvas_of = 0, origin_attr = vec 0 0 0, pos = vec 0 0 0,
       axis = vec 1 0 0, up = vec 0 1 0, obj_length = 6, obj_height = 2, obj_width = 1,
       visible = True, user_attrs = []\<rparr>])"
  unfolding import_parsed [where from_file = example_files, OF example_files_square]
  by (simp add: example_renderer_def import_args_lookup unit_square_def face_triangle_Face
      identity_pose_def get_pose_pos_def get_pose_x_vec_def get_pose_y_vec_def upt_rec)

lemma example_relocation:
  "set_stl_origin example_renderer 0 (vec 1 2 3) (vec 0 0 0) 0 example_heap =
     (Inr 1,
      [Compound (example_object\<lparr>pos := vec 4 3 2, visible := False\<rparr>),
       Compound \<lparr>children = [0], canvas_of = 0, origin_attr = vec 0 0 0, pos = vec 0 0 0,
         axis = vec 1 0 0, up = vec 0 1 0, obj_length = 3, obj_height = 2, obj_width = 1,
         visible = True, user_attrs = [(''vector'', VecArg x_axis_vector)]\<rparr>])"
  unfolding set_stl_origin_valid [OF example_heap_object]
  by (simp add: example_renderer_def relocate_args_lookup example_heap_def example_object_def)




section \<open>Properties of \<^verbatim>\<open>import_object_from_numpy_stl\<close>\<close>

text \<open>
  Claim C1. For a parsed mesh of \<open>F\<close> faces the import creates exactly \<open>F\<close> triangles,
  whatever the renderer then answers for the group: the number of triangles among the
  objects grows by \<open>F\<close>, and the \<open>i\<close>-th new object is the triangle of face \<open>i\<close>, built
  from the three points of that face as they are and in their order, each vertex with the
  normal of the face and the colour white.
\<close>

theorem import_one_triangle_per_face:
  assumes "from_file filename = Inr the_mesh"
    and "import_object_from_numpy_stl R from_file (filename, scale, p) scene h = (r, h')"
  shows "length (filter is_Triangle h') = length (filter is_Triangle h) + length the_mesh \<and>
         (\<forall>i<length the_mesh.
            \<exists>n0 n1 n2 a0 a1 a2 b0 b1 b2 c0 c1 c2.
              the_mesh ! i = Face (n0, n1, n2) ((a0, a1, a2), (b0, b1, b2), (c0, c1, c2)) \<and>
              h' ! (length h + i) =
                Triangle scene
                  [vertex (vec a0 a1 a2) (vec n0 n1 n2) white,
                   vertex (vec b0 b1 b2) (vec n0 n1 n2) white,
                   vertex (vec c0 c1 c2) (vec n0 n1 n2) white])"
proof -
  let ?ts = "map (face_triangle scene) the_mesh"
  from import_heap [OF assms]
  obtain rest where h': "h' = h @ ?ts @ rest" and rest: "filter is_Triangle rest = []"
    by auto
  have count: "length (filter is_Triangle h') = length (filter is_Triangle h) + length the_mesh"
    by (simp add: h' rest filter_face_triangles)
  have each: "\<exists>n0 n1 n2 a0 a1 a2 b0 b1 b2 c0 c1 c2.
              the_mesh ! i = Face (n0, n1, n2) ((a0, a1, a2), (b0, b1, b2), (c0, c1, c2)) \<and>
              h' ! (length h + i) =
                Triangle scene
                  [vertex (vec a0 a1 a2) (vec n0 n1 n2) white,
                   vertex (vec b0 b1 b2) (vec n0 n1 n2) white,
                   vertex (vec c0 c1 c2) (vec n0 n1 n2) white]"
    if "i < length the_mesh" for i
  proof -
    have "h' ! (length h + i) = face_triangle scene (the_mesh ! i)"
      using that by (simp add: h' nth_append)
    then show ?thesis
      using face_triangle_shape [of "the_mesh ! i" scene] by simp
  qed
  from count each show ?thesis by blast
qed

text \<open>The unit square: two faces, two triangles, the second one from the second face.\<close>

theorem import_one_triangle_per_face_witness:
  "example_files ''square.stl'' = Inr unit_square \<and>
   length (filter is_Triangle
     (snd (import_object_from_numpy_stl example_renderer example_files
        (''square.stl'', (2, 1, 1), identity_pose) 0 []))) = 2 \<and>
   snd (import_object_from_numpy_stl example_renderer example_files
        (''square.stl'', (2, 1, 1), identity_pose) 0 []) ! 1 =
     Triangle 0 [vertex (vec 0 0 0) (vec 0 0 1) white, vertex (vec 1 1 0) (vec 0 0 1) white,
                 vertex (vec 0 1 0) (vec 0 0 1) white]"
  using import_one_triangle_per_face [OF example_files_square example_import]
  by (simp add: example_files_square example_import unit_square_def)

text \<open>
  Claim C2. Scaling comes after grouping and is per attribute: when the import returns
  an object, that object is the one the \<^verbatim>\<open>compound\<close> call created for the triangles
  of the loop, with its length, height and width multiplied by the three scale factors
  in this order and nothing else changed; the factors do not depend on the mesh.
\<close>

theorem import_scales_after_grouping:
  assumes "import_object_from_numpy_stl R from_file (filename, (sx, sy, sz), p) scene h = (Inr v, h')"
  shows "\<exists>the_mesh triangles h1 h2 c.
      from_file filename = Inr the_mesh \<and>
      faces_loop the_mesh scene [0..<length (vectors the_mesh)] ([], h) = (triangles, h1) \<and>
      compound R triangles
        [(''origin'', VecArg (get_pose_pos p)), (''canvas'', CanvasArg scene),
         (''axis'', VecArg (get_pose_x_vec p)), (''up'', VecArg (get_pose_y_vec p))] h1 = (Inr v, h2) \<and>
      get_compound h2 v = Inr c \<and>
      get_compound h' v =
        Inr (c\<lparr>obj_length := obj_length c * sx, obj_height := obj_height c * sy,
               obj_width := obj_width c * sz\<rparr>) \<and>
      h' = h2[v := Compound (c\<lparr>obj_length := obj_length c * sx,
                obj_height := obj_height c * sy, obj_width := obj_width c * sz\<rparr>)]"
proof -
  from import_result [OF assms] obtain the_mesh ext where
    m: "from_file filename = Inr the_mesh" and
    b: "bounding_box R (map (face_triangle scene) the_mesh) (import_args p scene) = Inr ext" and
    v: "v = length h + length the_mesh" and
    h': "h' = h @ map (face_triangle scene) the_mesh @ [Compound \<lparr>
            children = [length h..<length h + length the_mesh],
            canvas_of = scene,
            origin_attr = get_pose_pos p,
            pos = e_pos ext,
            axis = get_pose_x_vec p,
            up = get_pose_y_vec p,
            obj_length = e_length ext * sx,
            obj_height = e_height ext * sy,
            obj_width = e_width ext * sz,
            visible = True,
            user_attrs = [] \<rparr>]"
    by blast
  let ?ts = "map (face_triangle scene) the_mesh"
  let ?c = "\<lparr>children = [length h..<length h + length the_mesh],
            canvas_of = scene,
            origin_attr = get_pose_pos p,
            pos = e_pos ext,
            axis = get_pose_x_vec p,
            up = get_pose_y_vec p,
            obj_length = e_length ext,
            obj_height = e_height ext,
            obj_width = e_width ext,
            visible = True,
            user_attrs = [] \<rparr>"
  have loop: "faces_loop the_mesh scene [0..<length (vectors the_mesh)] ([], h) =
          ([length h..<length h + length the_mesh], h @ ?ts)"
    by (simp add: vectors_def faces_loop_all)
  have grp: "compound R [length h..<length h + length the_mesh]
        [(''origin'', VecArg (get_pose_pos p)), (''canvas'', CanvasArg scene),
         (''axis'', VecArg (get_pose_x_vec p)), (''up'', VecArg (get_pose_y_vec p))] (h @ ?ts) =
        (Inr v, (h @ ?ts) @ [Compound ?c])"
    unfolding import_args_unfold
    using compound_new [of R h ?ts "import_args p scene"] b
    by (simp add: import_args_lookup v)
  have g2: "get_compound ((h @ ?ts) @ [Compound ?c]) v = Inr ?c"
    using get_compound_new [of h ?ts ?c] by (simp add: v)
  have g': "get_compound h' v =
        Inr (?c\<lparr>obj_length := obj_length ?c * sx, obj_height := obj_height ?c * sy,
               obj_width := obj_width ?c * sz\<rparr>)"
    unfolding h' using get_compound_new [of h ?ts] by (simp add: v)
  have u: "h' = ((h @ ?ts) @ [Compound ?c])[v := Compound (?c\<lparr>obj_length := obj_length ?c * sx,
                obj_height := obj_height ?c * sy, obj_width := obj_width ?c * sz\<rparr>)]"
    unfolding h' using update_new [of h ?ts] by (simp add: v)
  from m loop grp g2 g' u show ?thesis by blast
qed

text \<open>
  The unit square with scale (2, 1, 1) on a renderer that reports 3 by 2 by 1: the
  length doubles, height and width stay.
\<close>

theorem import_scales_after_grouping_witness:
  "fst (import_object_from_numpy_stl example_renderer example_files
          (''square.stl'', (2, 1, 1), identity_pose) 0 []) = Inr 2 \<and>
   (\<exists>c. get_compound
          (snd (import_object_from_numpy_stl example_renderer example_files
             (''square.stl'', (2, 1, 1), identity_pose) 0 [])) 2 = Inr c \<and>
        obj_length c = 3 * 2 \<and> obj_height c = 2 * 1 \<and> obj_width c = 1 * 1)"
  using import_scales_after_grouping [OF example_import]
  by (simp add: example_import get_compound_def)

text \<open>
  Claim C6, as amended. For a parsed mesh of zero faces the import itself raises nothing
  and creates no triangle: it passes the empty sequence to \<^verbatim>\<open>compound\<close>, and the
  outcome is the renderer's. If the renderer accepts an empty group, the import returns
  the one new object, without children, with the extents the renderer gave multiplied by
  the scale; if the renderer raises, that error is the result and no object was created.
\<close>

theorem import_zero_faces:
  assumes "from_file filename = Inr []"
  shows "import_object_from_numpy_stl R from_file (filename, (sx, sy, sz), p) scene h =
    (case bounding_box R []
            [(''origin'', VecArg (get_pose_pos p)), (''canvas'', CanvasArg scene),
             (''axis'', VecArg (get_pose_x_vec p)), (''up'', VecArg (get_pose_y_vec p))] of
       Inl e \<Rightarrow> (Inl e, h)
     | Inr ext \<Rightarrow>
         (Inr (length h),
          h @ [Compound \<lparr>
            children = [],
            canvas_of = scene,
            origin_attr = get_pose_pos p,
            pos = e_pos ext,
            axis = get_pose_x_vec p,
            up = get_pose_y_vec p,
            obj_length = e_length ext * sx,
            obj_height = e_height ext * sy,
            obj_width = e_width ext * sz,
            visible = True,
            user_attrs = [] \<rparr>]))"
  unfolding import_parsed [where from_file = from_file and filename = filename, OF assms]
    import_args_unfold
  by (simp split: sum.splits)

text \<open>An empty file on a renderer that accepts the empty group.\<close>

theorem import_zero_faces_witness:
  "example_files ''empty.stl'' = Inr [] \<and>
   import_object_from_numpy_stl example_renderer example_files
     (''empty.stl'', (2, 1, 1), identity_pose) 0 [] =
   (Inr 0,
    [Compound \<lparr>children = [], canvas_of = 0, origin_attr = vec 0 0 0, pos = vec 0 0 0,
       axis = vec 1 0 0, up = vec 0 1 0, obj_length = 6, obj_height = 2, obj_width = 1,
       visible = True, user_attrs = []\<rparr>])"
  using import_zero_faces [where from_file = example_files, OF example_files_empty,
      of example_renderer 2 1 1 identity_pose 0 "[]"]
  by (simp add: example_files_empty example_renderer_def import_args_unfold import_args_lookup
      identity_pose_def get_pose_pos_def get_pose_x_vec_def get_pose_y_vec_def vec_arg_def)

text \<open>
  Claim C6 as first stated says that the import of a well-formed file of zero faces does
  not raise. On a renderer that refuses to group nothing, it does: the same empty file
  ends in the renderer's error.
\<close>

theorem import_zero_faces_counterexample:
  "import_object_from_numpy_stl nonempty_renderer example_files
     (''empty.stl'', (2, 1, 1), identity_pose) 0 [] =
   (Inl (Error ''compound object must have at least one object''), [])"
  unfolding import_parsed [where from_file = example_files, OF example_files_empty]
  by (simp add: nonempty_renderer_def)

text \<open>
  Claim C7. When the import returns an object, it is one new compound that groups the
  triangles of all faces, in face order (its children are the handles of the new
  triangles, one after the other), with its origin at the position of the pose, its axis
  the x-axis of the pose and its up vector the y-axis of the pose, in the given scene.
\<close>

theorem import_groups_at_pose:
  assumes "import_object_from_numpy_stl R from_file (filename, scale, p) scene h = (Inr v, h')"
  shows "\<exists>the_mesh c.
      from_file filename = Inr the_mesh \<and>
      get_compound h' v = Inr c \<and>
      children c = [length h..<length h + length the_mesh] \<and>
      (\<forall>i<length the_mesh. is_Triangle (h' ! (children c ! i))) \<and>
      length (filter is_Compound h') = length (filter is_Compound h) + 1 \<and>
      origin_attr c = get_pose_pos p \<and>
      axis c = get_pose_x_vec p \<and>
      up c = get_pose_y_vec p \<and>
      canvas_of c = scene"
proof -
  obtain sx sy sz where s: "scale = (sx, sy, sz)" by (cases scale) auto
  from import_result [OF assms [unfolded s]] obtain the_mesh ext where
    m: "from_file filename = Inr the_mesh" and
    b: "bounding_box R (map (face_triangle scene) the_mesh) (import_args p scene) = Inr ext" and
    v: "v = length h + length the_mesh" and
    h': "h' = h @ map (face_triangle scene) the_mesh @ [Compound \<lparr>
            children = [length h..<length h + length the_mesh],
            canvas_of = scene,
            origin_attr = get_pose_pos p,
            pos = e_pos ext,
            axis = get_pose_x_vec p,
            up = get_pose_y_vec p,
            obj_length = e_length ext * sx,
            obj_height = e_height ext * sy,
            obj_width = e_width ext * sz,
            visible = True,
            user_attrs = [] \<rparr>]"
    by blast
  let ?ts = "map (face_triangle scene) the_mesh"
  have nc: "filter is_Compound ?ts = []"
    by (simp add: filter_empty_conv not_Compound_face_triangle)
  have g: "get_compound h' v = Inr \<lparr>
            children = [length h..<length h + length the_mesh],
            canvas_of = scene,
            origin_attr = get_pose_pos p,
            pos = e_pos ext,
            axis = get_pose_x_vec p,
            up = get_pose_y_vec p,
            obj_length = e_length ext * sx,
            obj_height = e_height ext * sy,
            obj_width = e_width ext * sz,
            visible = True,
            user_attrs = [] \<rparr>"
    unfolding h' using get_compound_new [of h ?ts] by (simp add: v)
  have t: "\<forall>i<length the_mesh. is_Triangle (h' ! ([length h..<length h + length the_mesh] ! i))"
    by (simp add: h' nth_append is_Triangle_face_triangle)
  have n: "length (filter is_Compound h') = length (filter is_Compound h) + 1"
    by (simp add: h' nc)
  from m g t n show ?thesis by simp
qed

text \<open>The unit square at the identity pose.\<close>

theorem import_groups_at_pose_witness:
  "\<exists>c. import_object_from_numpy_stl example_renderer example_files
          (''square.stl'', (2, 1, 1), identity_pose) 0 [] =
        (Inr 2,
         [Triangle 0 [vertex (vec 0 0 0) (vec 0 0 1) white, vertex (vec 1 0 0) (vec 0 0 1) white,
                      vertex (vec 1 1 0) (vec 0 0 1) white],
          Triangle 0 [vertex (vec 0 0 0) (vec 0 0 1) white, vertex (vec 1 1 0) (vec 0 0 1) white,
                      vertex (vec 0 1 0) (vec 0 0 1) white],
          Compound c]) \<and>
        children c = [0, 1] \<and> origin_attr c = vec 0 0 0 \<and> axis c = vec 1 0 0 \<and>
        up c = vec 0 1 0 \<and> canvas_of c = 0"
  using import_groups_at_pose [OF example_import]
  by (simp add: example_import)





text \<open>
  The import reads the pose through its accessors only, and what \<^verbatim>\<open>get_pose_z_vec\<close>
  returns is bound to \<^verbatim>\<open>origin_z\<close> and not used again: two poses with the same
  position, x-axis and y-axis give the same result.
\<close>

lemma import_depends_on_pose:
  assumes "get_pose_pos p' = get_pose_pos p"
    and "get_pose_x_vec p' = get_pose_x_vec p"
    and "get_pose_y_vec p' = get_pose_y_vec p"
  shows "import_object_from_numpy_stl R from_file (filename, scale, p') scene h =
         import_object_from_numpy_stl R from_file (filename, scale, p) scene h"
  unfolding import_object_from_numpy_stl_def Let_def prod.case assms ..

lemma get_pose_ignores_z:
  "get_pose_pos (p\<lparr>pose_z := z'\<rparr>) = get_pose_pos p"
  "get_pose_x_vec (p\<lparr>pose_z := z'\<rparr>) = get_pose_x_vec p"
  "get_pose_y_vec (p\<lparr>pose_z := z'\<rparr>) = get_pose_y_vec p"
  by (simp_all add: get_pose_pos_def get_pose_x_vec_def get_pose_y_vec_def)

text \<open>
  Claim C10. The result of the import does not depend on the z-axis of the pose: two
  inputs that differ in nothing but that vector give the same result and the same
  scene.
\<close>

theorem import_ignores_pose_z:
  "import_object_from_numpy_stl R from_file (filename, scale, p\<lparr>pose_z := z'\<rparr>) scene h =
   import_object_from_numpy_stl R from_file (filename, scale, p) scene h"
  by (rule import_depends_on_pose) (rule get_pose_ignores_z)+

section \<open>Properties of \<^verbatim>\<open>set_stl_origin\<close>\<close>

text \<open>
  Claim C3. For all points and every compound object, after the call the position of
  the object is its old position plus (required origin minus current origin), whether
  or not the renderer then creates the group.
\<close>

theorem set_stl_origin_translates:
  assumes "get_compound h stl_obj = Inr c"
    and "set_stl_origin R stl_obj current_obj_origin required_obj_origin scene h = (r, h')"
  shows "\<exists>c'. get_compound h' stl_obj = Inr c' \<and>
              pos c' = pos c + (required_obj_origin - current_obj_origin)"
proof -
  from assms(1) have v: "stl_obj < length h" by (simp add: get_compound_valid)
  from set_stl_origin_heap [OF assms] obtain rest where
    "h' = h[stl_obj := Compound (c\<lparr>pos := pos c + (required_obj_origin - current_obj_origin),
                                  visible := False\<rparr>)] @ rest" ..
  then show ?thesis using v by (simp add: get_compound_updated)
qed

text \<open>An object at (5, 5, 5), its origin moved from (1, 2, 3) to (0, 0, 0).\<close>

theorem set_stl_origin_translates_witness:
  "get_compound example_heap 0 = Inr example_object \<and>
   (\<exists>c'. get_compound
           (snd (set_stl_origin example_renderer 0 (vec 1 2 3) (vec 0 0 0) 0 example_heap)) 0 = Inr c' \<and>
         pos c' = vec 4 3 2)"
  using set_stl_origin_translates [OF example_heap_object example_relocation]
  by (simp add: example_heap_object example_relocation example_object_def)

text \<open>
  Claim C4. The object that \<^verbatim>\<open>set_stl_origin\<close> returns has its origin at (0, 0, 0)
  and its axis equal to the canonical x-axis, and it groups exactly one object, the
  translated input object. The call passes the x-axis under the keyword
  \<^verbatim>\<open>vector\<close>, which the library keeps as a user attribute; the axis is the
  x-axis because that is what a compound created without \<^verbatim>\<open>axis\<close> has.
\<close>

theorem set_stl_origin_group:
  assumes "set_stl_origin R stl_obj current_obj_origin required_obj_origin scene h = (Inr w, h')"
  shows "\<exists>c g. get_compound h stl_obj = Inr c \<and>
      get_compound h' stl_obj =
        Inr (c\<lparr>pos := pos c + (required_obj_origin - current_obj_origin), visible := False\<rparr>) \<and>
      get_compound h' w = Inr g \<and>
      origin_attr g = vec 0 0 0 \<and> axis g = x_axis_vector \<and> children g = [stl_obj]"
proof (cases "get_compound h stl_obj")
  case (Inl e)
  with assms show ?thesis by (simp add: set_stl_origin_def Let_def)
next
  case (Inr c)
  let ?c = "c\<lparr>pos := pos c + (required_obj_origin - current_obj_origin), visible := False\<rparr>"
  from Inr have v: "stl_obj < length h" by (simp add: get_compound_valid)
  from set_stl_origin_success [OF Inr assms] obtain g where
    w: "w = length h" and h': "h' = h[stl_obj := Compound ?c] @ [Compound g]" and
    g: "children g = [stl_obj]" "origin_attr g = vec 0 0 0" "axis g = vec 1 0 0"
    by blast
  have "get_compound h' stl_obj = Inr ?c"
    using v by (simp add: h' get_compound_updated)
  moreover have "get_compound h' w = Inr g"
    by (simp add: h' w get_compound_def nth_append)
  ultimately show ?thesis
    using Inr g by (simp add: x_axis_vector_def)
qed

text \<open>The object at (5, 5, 5), its origin moved from (1, 2, 3) to (0, 0, 0).\<close>

theorem set_stl_origin_group_witness:
  "fst (set_stl_origin example_renderer 0 (vec 1 2 3) (vec 0 0 0) 0 example_heap) = Inr 1 \<and>
   (\<exists>g. get_compound
          (snd (set_stl_origin example_renderer 0 (vec 1 2 3) (vec 0 0 0) 0 example_heap)) 1 =
          Inr g \<and>
        origin_attr g = vec 0 0 0 \<and> axis g = vec 1 0 0 \<and> children g = [0])"
  using set_stl_origin_group [OF example_relocation]
  by (simp add: example_relocation get_compound_def x_axis_vector_def)





text \<open>
  Claim C9. The call leaves the original object in the scene, invisible: its attributes
  after the call are the old ones with the position translated and \<^verbatim>\<open>visible\<close>
  false, nothing else changed; every other object of the scene is as it was; and the
  group that is returned is another object, whose only child is the original object.
\<close>

theorem set_stl_origin_frame:
  assumes "get_compound h stl_obj = Inr c"
    and "set_stl_origin R stl_obj current_obj_origin required_obj_origin scene h = (r, h')"
  shows "get_compound h' stl_obj =
           Inr (c\<lparr>pos := pos c + (required_obj_origin - current_obj_origin), visible := False\<rparr>) \<and>
         (\<forall>i<length h. i \<noteq> stl_obj \<longrightarrow> h' ! i = h ! i) \<and>
         (\<forall>w. r = Inr w \<longrightarrow>
            w \<noteq> stl_obj \<and> (\<exists>g. get_compound h' w = Inr g \<and> children g = [stl_obj]))"
proof -
  let ?c = "c\<lparr>pos := pos c + (required_obj_origin - current_obj_origin), visible := False\<rparr>"
  from assms(1) have v: "stl_obj < length h" by (simp add: get_compound_valid)
  from set_stl_origin_heap [OF assms] obtain rest where
    h': "h' = h[stl_obj := Compound ?c] @ rest" ..
  have a: "get_compound h' stl_obj = Inr ?c"
    using v by (simp add: h' get_compound_updated)
  have b: "\<forall>i<length h. i \<noteq> stl_obj \<longrightarrow> h' ! i = h ! i"
    by (simp add: h' nth_append)
  have c: "w \<noteq> stl_obj \<and> (\<exists>g. get_compound h' w = Inr g \<and> children g = [stl_obj])"
    if "r = Inr w" for w
    using assms(2) that v unfolding set_stl_origin_valid [OF assms(1)]
    by (auto simp: get_compound_def nth_append split: sum.splits)
  from a b c show ?thesis by blast
qed

text \<open>The object at (5, 5, 5) again: kept as object 0, invisible, inside the new object 1.\<close>

theorem set_stl_origin_frame_witness:
  "get_compound example_heap 0 = Inr example_object \<and>
   fst (set_stl_origin example_renderer 0 (vec 1 2 3) (vec 0 0 0) 0 example_heap) = Inr 1 \<and>
   get_compound (snd (set_stl_origin example_renderer 0 (vec 1 2 3) (vec 0 0 0) 0 example_heap)) 0 =
     Inr (example_object\<lparr>pos := vec 4 3 2, visible := False\<rparr>) \<and>
   (\<exists>g. get_compound (snd (set_stl_origin example_renderer 0 (vec 1 2 3) (vec 0 0 0) 0 example_heap)) 1 =
          Inr g \<and> children g = [0])"
  using set_stl_origin_frame [OF example_heap_object example_relocation]
  by (simp add: example_heap_object example_relocation example_object_def)

end
